theory Spec2Isabelle
  imports Complex_Main
begin

section \<open>Numbers of the script\<close>

text \<open>
  The script \<^verbatim>\<open>script.js\<close> computes with JavaScript numbers: IEEE 754 binary64
  doubles. A finite double is modelled by its value, a \<^typ>\<open>real\<close>; every operation
  computes the exact result and rounds it to the nearest double (ties to even), to an
  infinity on overflow. \<open>Undefined\<close> is what an array read out of range yields; in
  arithmetic it counts as \<^verbatim>\<open>NaN\<close>.

  The two zeros of the format are one value here, \<open>Num 0\<close>. The script cannot tell them
  apart: it compares numbers with \<^verbatim>\<open>>= 0\<close> and \<^verbatim>\<open>!== 0\<close>, which treat them alike, and
  the sign of a zero shows only in a division by it. Where a division by zero is
  defined below, the zero is taken for \<open>+0\<close>. The decimal rendering of \<^verbatim>\<open>toFixed\<close> and
  \<^verbatim>\<open>toLocaleString\<close> is not modelled.
\<close>

datatype jsnum = Num real | PosInf | NegInf | NaN | Undefined

datatype js_error = TypeError | RangeError

text \<open>\<open>2\<^sup>k\<close> for an integer \<open>k\<close>.\<close>

definition pow2 :: "int \<Rightarrow> real" where
  "pow2 k = (if 0 \<le> k then 2 ^ nat k else 1 / 2 ^ nat (- k))"

text \<open>
  The binary exponent of a positive \<open>x\<close>: the \<open>e\<close> with \<open>2\<^sup>e \<le> x < 2\<^sup>e\<^sup>+\<^sup>1\<close>, searched from
  a first guess.
\<close>

function ilog2 :: "real \<Rightarrow> int \<Rightarrow> int" where
  "ilog2 x e =
     (if x \<le> 0 then e
      else if x < pow2 e then ilog2 x (e - 1)
      else if pow2 (e + 1) \<le> x then ilog2 x (e + 1)
      else e)"
  by pat_completeness auto

lemma pow2_powr: "pow2 k = 2 powr (of_int k)"
proof (cases "0 \<le> k")
  case True
  then have "of_int k = real (nat k)" by simp
  then have "2 powr (of_int k) = (2::real) ^ nat k"
    by (simp add: powr_realpow del: of_nat_nat)
  then show ?thesis using True by (simp add: pow2_def)
next
  case False
  then have "of_int k = - real (nat (- k))" by simp
  then have "2 powr (of_int k) = 1 / (2::real) ^ nat (- k)"
    by (simp add: powr_minus powr_realpow inverse_eq_divide del: of_nat_nat)
  then show ?thesis using False by (simp add: pow2_def)
qed

termination ilog2
proof (relation "measure (\<lambda>(x, e). nat \<bar>\<lfloor>log 2 x\<rfloor> - e\<bar>)")
  show "wf (measure (\<lambda>(x, e). nat \<bar>\<lfloor>log 2 x\<rfloor> - e\<bar>))" by simp
next
  fix x :: real and e :: int
  assume "\<not> x \<le> 0" and lt: "x < pow2 e"
  then have "log 2 x < of_int e"
    by (simp add: pow2_powr log_less_iff)
  then have "\<lfloor>log 2 x\<rfloor> < e" by linarith
  then show "((x, e - 1), (x, e)) \<in> measure (\<lambda>(x, e). nat \<bar>\<lfloor>log 2 x\<rfloor> - e\<bar>)"
    by simp
next
  fix x :: real and e :: int
  assume pos: "\<not> x \<le> 0" and "\<not> x < pow2 e" and ge: "pow2 (e + 1) \<le> x"
  then have "of_int (e + 1) \<le> log 2 x"
    by (simp add: pow2_powr le_log_iff)
  then have "e + 1 \<le> \<lfloor>log 2 x\<rfloor>" by linarith
  then show "((x, e + 1), (x, e)) \<in> measure (\<lambda>(x, e). nat \<bar>\<lfloor>log 2 x\<rfloor> - e\<bar>)"
    by simp
qed

declare ilog2.simps [simp del]

text \<open>Rounding to the nearest integer, a tie to the even one.\<close>

definition rhe :: "real \<Rightarrow> int" where
  "rhe y =
     (let n = \<lfloor>y\<rfloor>; r = y - of_int n
      in if r < 1 / 2 then n else if 1 / 2 < r then n + 1 else if even n then n else n + 1)"

text \<open>
  Rounding a real to binary64. In the binade of exponent \<open>e\<close> the doubles are the
  multiples of \<open>2\<^sup>e\<^sup>-\<^sup>5\<^sup>2\<close>; below \<open>2\<^sup>-\<^sup>1\<^sup>0\<^sup>2\<^sup>2\<close> (the subnormal range) they are the multiples
  of \<open>2\<^sup>-\<^sup>1\<^sup>0\<^sup>7\<^sup>4\<close>. A result that reaches \<open>2\<^sup>1\<^sup>0\<^sup>2\<^sup>4\<close> is an infinity.
\<close>

definition fl :: "real \<Rightarrow> jsnum" where
  "fl x =
     (if x = 0 then Num 0
      else
        let a = \<bar>x\<bar>;
            e = max (ilog2 a 0) (- 1022);
            u = pow2 (e - 52);
            r = of_int (rhe (a / u)) * u
        in if pow2 1024 \<le> r then (if 0 < x then PosInf else NegInf)
           else Num (if 0 < x then r else - r))"

text \<open>
  The finite doubles, as a type: the reals that rounding leaves as they are. \<open>dbl x\<close>
  is the double that the decimal literal \<open>x\<close> denotes, the nearest one (0 stands in for
  a literal beyond the range of the finite doubles). The test in its definition always
  succeeds, since what rounding returns is a double (\<open>fl_is_double\<close> below).
\<close>

definition is_double :: "real \<Rightarrow> bool" where
  "is_double x = (fl x = Num x)"

typedef double = "{x :: real. is_double x}"
  morphisms val Abs_double
  by (rule exI[of _ 0]) (simp add: is_double_def fl_def)

lemma double_abstype [code abstype]: "Abs_double (val x) = x"
  by (rule val_inverse)

definition dbl :: "real \<Rightarrow> double" where [code del]:
  "dbl x = Abs_double (case fl x of Num y \<Rightarrow> if is_double y then y else 0 | _ \<Rightarrow> 0)"

lemma is_double_0: "is_double 0"
  by (simp add: is_double_def fl_def)

lemma val_dbl [code abstract]:
  "val (dbl x) = (case fl x of Num y \<Rightarrow> if is_double y then y else 0 | _ \<Rightarrow> 0)"
  unfolding dbl_def
  by (rule Abs_double_inverse) (auto simp: is_double_0 split: jsnum.splits)

text \<open>
  The sign of an infinite result, from the sign of a finite operand; a zero operand
  gives \<^verbatim>\<open>NaN\<close> (\<open>0 * Infinity\<close>, \<open>0 / 0\<close>).
\<close>

definition inf_signed :: "real \<Rightarrow> jsnum" where
  "inf_signed x = (if x = 0 then NaN else if 0 < x then PosInf else NegInf)"

text \<open>\<^verbatim>\<open>a + b\<close> on numbers (\<^verbatim>\<open>undefined\<close> is converted to \<^verbatim>\<open>NaN\<close>).\<close>

fun js_add :: "jsnum \<Rightarrow> jsnum \<Rightarrow> jsnum" where
  "js_add (Num x) (Num y) = fl (x + y)"
| "js_add (Num x) PosInf = PosInf"
| "js_add (Num x) NegInf = NegInf"
| "js_add PosInf (Num y) = PosInf"
| "js_add NegInf (Num y) = NegInf"
| "js_add PosInf PosInf = PosInf"
| "js_add NegInf NegInf = NegInf"
| "js_add a b = NaN"

text \<open>\<^verbatim>\<open>a - b\<close>\<close>

fun js_sub :: "jsnum \<Rightarrow> jsnum \<Rightarrow> jsnum" where
  "js_sub (Num x) (Num y) = fl (x - y)"
| "js_sub (Num x) PosInf = NegInf"
| "js_sub (Num x) NegInf = PosInf"
| "js_sub PosInf (Num y) = PosInf"
| "js_sub NegInf (Num y) = NegInf"
| "js_sub PosInf NegInf = PosInf"
| "js_sub NegInf PosInf = NegInf"
| "js_sub a b = NaN"

text \<open>\<^verbatim>\<open>a * b\<close>\<close>

fun js_mul :: "jsnum \<Rightarrow> jsnum \<Rightarrow> jsnum" where
  "js_mul (Num x) (Num y) = fl (x * y)"
| "js_mul (Num x) PosInf = inf_signed x"
| "js_mul (Num x) NegInf = inf_signed (- x)"
| "js_mul PosInf (Num y) = inf_signed y"
| "js_mul NegInf (Num y) = inf_signed (- y)"
| "js_mul PosInf PosInf = PosInf"
| "js_mul NegInf NegInf = PosInf"
| "js_mul PosInf NegInf = NegInf"
| "js_mul NegInf PosInf = NegInf"
| "js_mul a b = NaN"

text \<open>\<^verbatim>\<open>a / b\<close>: a division by zero gives an infinity, or \<^verbatim>\<open>NaN\<close> for \<open>0 / 0\<close>.\<close>

fun js_div :: "jsnum \<Rightarrow> jsnum \<Rightarrow> jsnum" where
  "js_div (Num x) (Num y) = (if y = 0 then inf_signed x else fl (x / y))"
| "js_div (Num x) PosInf = Num 0"
| "js_div (Num x) NegInf = Num 0"
| "js_div PosInf (Num y) = (if 0 \<le> y then PosInf else NegInf)"
| "js_div NegInf (Num y) = (if 0 \<le> y then NegInf else PosInf)"
| "js_div a b = NaN"

text \<open>\<^verbatim>\<open>(a / b) * 100\<close>, the percentage as the script writes it.\<close>

definition js_pct :: "jsnum \<Rightarrow> jsnum \<Rightarrow> jsnum" where
  "js_pct a b = js_mul (js_div a b) (Num 100)"

text \<open>\<^verbatim>\<open>x !== 0\<close>: true for every value but the number zero.\<close>

definition js_nonzero :: "jsnum \<Rightarrow> bool" where
  "js_nonzero a = (a \<noteq> Num 0)"

text \<open>\<^verbatim>\<open>x >= 0\<close>: false for \<^verbatim>\<open>NaN\<close> and \<^verbatim>\<open>undefined\<close>.\<close>

fun js_ge0 :: "jsnum \<Rightarrow> bool" where
  "js_ge0 (Num x) = (0 \<le> x)"
| "js_ge0 PosInf = True"
| "js_ge0 a = False"

section \<open>Values of the dataset\<close>

text \<open>
  What \<^verbatim>\<open>metalsData.metals[metalName]\<close> can evaluate to. A series is an array of finite
  doubles. The dataset is an ordinary object written as a literal in \<^verbatim>\<open>data.js\<close>: a read
  of a name that is not one of its own keys falls through to \<^verbatim>\<open>Object.prototype\<close>,
  whose properties are functions (each with its \<^verbatim>\<open>length\<close>) and, for \<^verbatim>\<open>__proto__\<close>, the
  prototype object itself.
\<close>

datatype jsval = Array "double list" | Function nat | Object

definition object_prototype :: "string \<rightharpoonup> jsval" where
  "object_prototype = map_of
     [(''constructor'', Function 1),
      (''hasOwnProperty'', Function 1),
      (''isPrototypeOf'', Function 1),
      (''propertyIsEnumerable'', Function 1),
      (''toLocaleString'', Function 0),
      (''toString'', Function 0),
      (''valueOf'', Function 0),
      (''__defineGetter__'', Function 2),
      (''__defineSetter__'', Function 2),
      (''__lookupGetter__'', Function 1),
      (''__lookupSetter__'', Function 1),
      (''__proto__'', Object)]"

text \<open>\<^verbatim>\<open>obj[name]\<close> on the metals object; \<^const>\<open>None\<close> is \<^verbatim>\<open>undefined\<close>.\<close>

definition js_get :: "(string \<rightharpoonup> double list) \<Rightarrow> string \<Rightarrow> jsval option" where
  "js_get obj name = (case obj name of Some xs \<Rightarrow> Some (Array xs) | None \<Rightarrow> object_prototype name)"

text \<open>\<^verbatim>\<open>v.length\<close>; \<^const>\<open>None\<close> is \<^verbatim>\<open>undefined\<close>.\<close>

fun js_length :: "jsval \<Rightarrow> int option" where
  "js_length (Array xs) = Some (int (length xs))"
| "js_length (Function k) = Some (int k)"
| "js_length Object = None"

text \<open>\<^verbatim>\<open>v[i]\<close> for an integer \<^verbatim>\<open>i\<close>: out of range, or not an array, it is \<^verbatim>\<open>undefined\<close>.\<close>

fun js_index :: "jsval \<Rightarrow> int \<Rightarrow> jsnum" where
  "js_index (Array xs) i =
     (if 0 \<le> i \<and> i < int (length xs) then Num (val (xs ! nat i)) else Undefined)"
| "js_index (Function k) i = Undefined"
| "js_index Object i = Undefined"

section \<open>Dates\<close>

text \<open>
  A \<^verbatim>\<open>Date\<close> holds a time value: milliseconds since 1970-01-01T00:00:00Z, or \<^verbatim>\<open>NaN\<close>
  (\<^const>\<open>None\<close>) for an invalid date. The functions below are the abstract operations of
  ECMA-262 (section "Date Objects") that \<^verbatim>\<open>getDate\<close>, \<^verbatim>\<open>setDate\<close> and \<^verbatim>\<open>toISOString\<close>
  are defined by, on the proleptic Gregorian calendar.
\<close>

definition msPerDay :: int where
  "msPerDay = 86400000"

definition msPerHour :: int where
  "msPerHour = 3600000"

definition Day :: "int \<Rightarrow> int" where
  "Day t = t div msPerDay"

definition TimeWithinDay :: "int \<Rightarrow> int" where
  "TimeWithinDay t = t mod msPerDay"

text \<open>Day number (days since 1970-01-01) of the civil date \<open>y\<close>-\<open>m\<close>-\<open>d\<close>, month 1 to 12.\<close>

definition days_from_civil :: "int \<Rightarrow> int \<Rightarrow> int \<Rightarrow> int" where
  "days_from_civil y m d =
     (let y' = (if m \<le> 2 then y - 1 else y);
          era = y' div 400;
          yoe = y' - era * 400;
          doy = (153 * (if 2 < m then m - 3 else m + 9) + 2) div 5 + d - 1;
          doe = yoe * 365 + yoe div 4 - yoe div 100 + doy
      in era * 146097 + doe - 719468)"

text \<open>The civil date (year, month 1 to 12, day of month) of a day number.\<close>

definition civil_from_days :: "int \<Rightarrow> int \<times> int \<times> int" where
  "civil_from_days z =
     (let z' = z + 719468;
          era = z' div 146097;
          doe = z' - era * 146097;
          yoe = (doe - doe div 1460 + doe div 36524 - doe div 146096) div 365;
          doy = doe - (365 * yoe + yoe div 4 - yoe div 100);
          mp = (5 * doy + 2) div 153;
          d = doy - (153 * mp + 2) div 5 + 1;
          m = (if mp < 10 then mp + 3 else mp - 9);
          y = yoe + era * 400
      in (if m \<le> 2 then y + 1 else y, m, d))"

definition YearFromTime :: "int \<Rightarrow> int" where
  "YearFromTime t = fst (civil_from_days (Day t))"

text \<open>Months are numbered from 0 in ECMAScript.\<close>

definition MonthFromTime :: "int \<Rightarrow> int" where
  "MonthFromTime t = fst (snd (civil_from_days (Day t))) - 1"

definition DateFromTime :: "int \<Rightarrow> int" where
  "DateFromTime t = snd (snd (civil_from_days (Day t)))"

text \<open>
  \<^verbatim>\<open>MakeDay(year, month, date)\<close>: the day number of the first of the month, plus
  \<open>date - 1\<close>; a date beyond the month's end runs on into the following months.
\<close>

definition MakeDay :: "int \<Rightarrow> int \<Rightarrow> int \<Rightarrow> int" where
  "MakeDay year month date =
     days_from_civil (year + month div 12) (month mod 12 + 1) 1 + date - 1"

definition MakeDate :: "int \<Rightarrow> int \<Rightarrow> int" where
  "MakeDate day time = day * msPerDay + time"

definition TimeClip :: "int \<Rightarrow> int option" where
  "TimeClip t = (if \<bar>t\<bar> > 8640000000000000 then None else Some t)"

text \<open>
  The local time zone of the browser: the offset (in ms) in force at a UTC time value,
  and the offset by which a local time value is read back as UTC.
\<close>

record timezone =
  offset_at_utc :: "int \<Rightarrow> int"
  offset_at_local :: "int \<Rightarrow> int"

definition LocalTime :: "timezone \<Rightarrow> int \<Rightarrow> int" where
  "LocalTime tz t = t + offset_at_utc tz t"

definition UTC :: "timezone \<Rightarrow> int \<Rightarrow> int" where
  "UTC tz t = t - offset_at_local tz t"

text \<open>\<^verbatim>\<open>date.getDate()\<close>: the day of the month in local time.\<close>

definition getDate :: "timezone \<Rightarrow> int \<Rightarrow> int" where
  "getDate tz t = DateFromTime (LocalTime tz t)"

text \<open>
  \<^verbatim>\<open>date.setDate(dt)\<close>: the local year, month and time of day are kept, the day of the
  month is replaced, and the local result is converted back to UTC.
\<close>

definition setDate :: "timezone \<Rightarrow> int \<Rightarrow> int \<Rightarrow> int option" where
  "setDate tz t dt =
     (let lt = LocalTime tz t;
          newDate = MakeDate (MakeDay (YearFromTime lt) (MonthFromTime lt) dt) (TimeWithinDay lt)
      in TimeClip (UTC tz newDate))"

definition digit_char :: "int \<Rightarrow> char" where
  "digit_char d = ''0123456789'' ! nat d"

definition digits2 :: "int \<Rightarrow> string" where
  "digits2 v = [digit_char (v div 10 mod 10), digit_char (v mod 10)]"

definition digits4 :: "int \<Rightarrow> string" where
  "digits4 v = digits2 (v div 100 mod 100) @ digits2 (v mod 100)"

definition digits6 :: "int \<Rightarrow> string" where
  "digits6 v = digits2 (v div 10000 mod 100) @ digits4 (v mod 10000)"

text \<open>Zero-padded year-month-day; years outside 0 to 9999 are signed, with six digits.\<close>

definition iso_date :: "int \<times> int \<times> int \<Rightarrow> string" where
  "iso_date ymd =
     (case ymd of (y, m, d) \<Rightarrow>
        (if 0 \<le> y \<and> y \<le> 9999 then digits4 y
         else if y < 0 then CHR ''-'' # digits6 (- y)
         else CHR ''+'' # digits6 y)
        @ ''-'' @ digits2 m @ ''-'' @ digits2 d)"

text \<open>
  \<^verbatim>\<open>date.toISOString().split('T')[0]\<close> for a valid time value: the date part of the
  UTC rendering.
\<close>

definition toISOString_date :: "int \<Rightarrow> string" where
  "toISOString_date t = iso_date (civil_from_days (Day t))"

text \<open>
  The time value of \<^verbatim>\<open>new Date("YYYY-MM-DD")\<close> for a valid civil date: a date-only
  string is read as midnight UTC.
\<close>

definition date_only :: "int \<Rightarrow> int \<Rightarrow> int \<Rightarrow> int option" where
  "date_only y m d = Some (MakeDate (days_from_civil y m d) 0)"

text \<open>
  The label of index \<open>i\<close> in the chart loop of \<^verbatim>\<open>updateDisplay\<close>:
  \<^verbatim>\<open>
  const date = new Date(startDate);
  date.setDate(date.getDate() + i);
  const iso = date.toISOString().split('T')[0];
  \<close>
  \<^verbatim>\<open>toISOString\<close> throws a RangeError on an invalid date.
\<close>

definition dateLabel :: "timezone \<Rightarrow> int option \<Rightarrow> int \<Rightarrow> js_error + string" where
  "dateLabel tz startDate i =
     (case startDate of
        None \<Rightarrow> Inl RangeError
      | Some t \<Rightarrow>
          (case setDate tz t (getDate tz t + i) of
             None \<Rightarrow> Inl RangeError
           | Some u \<Rightarrow> Inr (toISOString_date u)))"

text \<open>A zone with no offset, and Central European Time with its 2021 summer time.\<close>

definition utc_zone :: timezone where
  "utc_zone = \<lparr>offset_at_utc = (\<lambda>t. 0), offset_at_local = (\<lambda>t. 0)\<rparr>"

definition cet_2021 :: timezone where
  "cet_2021 =
     \<lparr>offset_at_utc = (\<lambda>t.
         if MakeDate (days_from_civil 2021 3 28) msPerHour \<le> t
            \<and> t < MakeDate (days_from_civil 2021 10 31) msPerHour
         then 2 * msPerHour else msPerHour),
      offset_at_local = (\<lambda>t.
         if MakeDate (days_from_civil 2021 3 28) (3 * msPerHour) \<le> t
            \<and> t < MakeDate (days_from_civil 2021 10 31) (3 * msPerHour)
         then 2 * msPerHour else msPerHour)\<rparr>"

section \<open>The dataset and the page\<close>

text \<open>
  \<^verbatim>\<open>metalsData\<close> (\<^verbatim>\<open>window.METALS_DATA\<close>, set by \<^verbatim>\<open>data.js\<close>) may be missing, and so may
  its \<^verbatim>\<open>metals\<close> property. \<open>start_date\<close> holds the time value of
  \<^verbatim>\<open>new Date(metalsData.start_date)\<close>, \<^const>\<open>None\<close> for an invalid date.
\<close>

record dataset =
  start_date :: "int option"
  metals :: "(string \<rightharpoonup> double list) option"

text \<open>
  What the script shows and keeps: the global \<^verbatim>\<open>chart\<close>, the elements it writes to, the
  selected option, the listeners it has installed, and what it has reported. The numbers
  written into the page are kept as numbers, each with the class chosen for it; the
  colours of the chart and the wording of the cells are not part of the model.
\<close>

record chart_data =
  chart_metal :: string
  chart_labels :: "string list"
  chart_points :: "jsnum list"

record table_row =
  row_name :: string
  row_amount :: jsnum
  row_percent :: jsnum
  amount_class :: string
  percent_class :: string

record price_summary =
  summary_current :: jsnum
  summary_diff :: jsnum
  summary_pct :: jsnum
  summary_class :: string

record page =
  chart :: "chart_data option"
  current_price :: "jsnum option"
  summary_el :: bool
  summary :: "price_summary option"
  performance_body :: "table_row list"
  select_value :: string
  change_listener :: bool
  dark_mode :: bool
  saved_dark_mode :: "string option"
  toggle_listener :: bool
  console_errors :: "string list"
  alerts :: "string list"

record period =
  period_name :: string
  period_days :: int

definition periods :: "period list" where
  "periods =
     [\<lparr>period_name = ''Today'', period_days = 1\<rparr>,
      \<lparr>period_name = ''30 Days'', period_days = 30\<rparr>,
      \<lparr>period_name = ''6 Months'', period_days = 180\<rparr>,
      \<lparr>period_name = ''1 Year'', period_days = 365\<rparr>,
      \<lparr>period_name = ''5 Years'', period_days = 365 * 5\<rparr>,
      \<lparr>period_name = ''20 Years'', period_days = 365 * 20\<rparr>]"

definition sign_class :: "jsnum \<Rightarrow> string" where
  "sign_class v = (if js_ge0 v then ''positive'' else ''negative'')"

section \<open>The chart window\<close>

text \<open>
  The first part of the body of \<^verbatim>\<open>updateDisplay\<close> builds the labels and the points of
  the chart; the script's \<^verbatim>\<open>lastNDays = 30\<close> is the parameter \<open>lastNDays\<close> here.
  \<^verbatim>\<open>
  for (let i = startIdx; i < totalDays; i++) {
      ... chartLabels.push(iso);
      chartPoints.push(metalSeries[i]);
  }
  \<close>
  A RangeError of \<^verbatim>\<open>toISOString\<close> leaves the loop and the function.
\<close>

function chartLoop ::
  "timezone \<Rightarrow> int option \<Rightarrow> jsval \<Rightarrow> int \<Rightarrow> int \<Rightarrow> string list \<Rightarrow> jsnum list
     \<Rightarrow> js_error + (string list \<times> jsnum list)" where
  "chartLoop tz startDate metalSeries totalDays i chartLabels chartPoints =
     (if i < totalDays then
        (case dateLabel tz startDate i of
           Inl e \<Rightarrow> Inl e
         | Inr isoDay \<Rightarrow>
             chartLoop tz startDate metalSeries totalDays (i + 1)
               (chartLabels @ [isoDay]) (chartPoints @ [js_index metalSeries i]))
      else Inr (chartLabels, chartPoints))"
  by pat_completeness auto
termination
  by (relation "measure (\<lambda>(tz, startDate, metalSeries, totalDays, i, ls, ps). nat (totalDays - i))") auto

declare chartLoop.simps [simp del]

definition chartWindow ::
  "timezone \<Rightarrow> int option \<Rightarrow> jsval \<Rightarrow> int \<Rightarrow> int \<Rightarrow> js_error + (string list \<times> jsnum list)" where
  "chartWindow tz startDate metalSeries totalDays lastNDays =
     (let startIdx = max 0 (totalDays - lastNDays)
      in chartLoop tz startDate metalSeries totalDays startIdx [] [])"

section \<open>The price summary\<close>

text \<open>\<^verbatim>\<open>totalDays >= 2 ? metalSeries[totalDays - 2] : currentPrice\<close>\<close>

definition prevPrice :: "jsval \<Rightarrow> int \<Rightarrow> jsnum \<Rightarrow> jsnum" where
  "prevPrice metalSeries totalDays currentPrice =
     (if 2 \<le> totalDays then js_index metalSeries (totalDays - 2) else currentPrice)"

text \<open>
  \<^verbatim>\<open>updatePriceSummary\<close>: nothing happens without the \<^verbatim>\<open>price-summary\<close> element. Both
  change spans take their class (and the arrow its direction) from \<^verbatim>\<open>diff >= 0\<close>.
\<close>

definition updatePriceSummary :: "string \<Rightarrow> jsnum \<Rightarrow> jsnum \<Rightarrow> page \<Rightarrow> page" where
  "updatePriceSummary metalName currentPrice prev pg =
     (if \<not> summary_el pg then pg
      else
        let diff = js_sub currentPrice prev;
            pctDiff = (if js_nonzero prev then js_pct diff prev else Num 0);
            isPositive = js_ge0 diff
        in pg\<lparr>summary := Some
                 \<lparr>summary_current = currentPrice,
                  summary_diff = diff,
                  summary_pct = pctDiff,
                  summary_class = (if isPositive then ''positive'' else ''negative'')\<rparr>\<rparr>)"

section \<open>The performance table\<close>

text \<open>
  The body of \<^verbatim>\<open>periods.forEach\<close> makes one row for one period, from the reference
  price \<open>pastPrice\<close>; \<open>periodChanges\<close> is the \<^verbatim>\<open>forEach\<close> itself, which appends the
  rows in the order of the periods.
\<close>

definition pastPrice :: "jsval \<Rightarrow> int \<Rightarrow> int \<Rightarrow> jsnum" where
  "pastPrice metalSeries totalDays days =
     (let idx = totalDays - days
      in if 0 \<le> idx then js_index metalSeries idx else js_index metalSeries 0)"

definition periodRow :: "jsval \<Rightarrow> int \<Rightarrow> jsnum \<Rightarrow> period \<Rightarrow> table_row" where
  "periodRow metalSeries totalDays currentPrice p =
     (let past = pastPrice metalSeries totalDays (period_days p);
          amountChange = js_sub currentPrice past;
          percentChange = (if js_nonzero past then js_pct amountChange past else Num 0)
      in \<lparr>row_name = period_name p,
          row_amount = amountChange,
          row_percent = percentChange,
          amount_class = sign_class amountChange,
          percent_class = sign_class percentChange\<rparr>)"

definition periodChanges :: "jsval \<Rightarrow> int \<Rightarrow> jsnum \<Rightarrow> period list \<Rightarrow> table_row list" where
  "periodChanges metalSeries totalDays currentPrice ps =
     map (periodRow metalSeries totalDays currentPrice) ps"

text \<open>
  \<^verbatim>\<open>
  let sum = 0;
  for (let i = totalDays - lookback; i < totalDays; i++) { sum += metalSeries[i]; }
  \<close>
\<close>

function sumLoop :: "jsval \<Rightarrow> int \<Rightarrow> int \<Rightarrow> jsnum \<Rightarrow> jsnum" where
  "sumLoop metalSeries totalDays i acc =
     (if i < totalDays
      then sumLoop metalSeries totalDays (i + 1) (js_add acc (js_index metalSeries i))
      else acc)"
  by pat_completeness auto
termination
  by (relation "measure (\<lambda>(metalSeries, totalDays, i, acc). nat (totalDays - i))") auto

declare sumLoop.simps [simp del]

text \<open>
  The average of the moving-average row, with the script's 50 as the parameter \<open>n\<close>:
  \<^verbatim>\<open>
  const lookback = Math.min(50, totalDays);
  ... const avg50 = sum / lookback;
  \<close>
  The sum is rounded after every addition, and the quotient once more. For the script's
  50 and \<open>totalDays > 0\<close> the divisor is at least 1; a divisor 0 (for \<open>n = 0\<close>) meets the
  sum 0 of an empty loop, and \<open>0 / 0\<close> is \<^verbatim>\<open>NaN\<close>.
\<close>

definition movingAverage :: "jsval \<Rightarrow> int \<Rightarrow> int \<Rightarrow> jsnum" where
  "movingAverage metalSeries totalDays n =
     (let lookback = min n totalDays;
          acc = sumLoop metalSeries totalDays (totalDays - lookback) (Num 0)
      in js_div acc (Num (of_int lookback)))"

text \<open>The row itself exists only for \<open>totalDays > 0\<close>.\<close>

definition movingAverageDeviation :: "jsval \<Rightarrow> int \<Rightarrow> jsnum \<Rightarrow> int \<Rightarrow> table_row option" where
  "movingAverageDeviation metalSeries totalDays currentPrice n =
     (if 0 < totalDays then
        let avg50 = movingAverage metalSeries totalDays n;
            diff = js_sub currentPrice avg50;
            pctDiff = (if js_nonzero avg50 then js_pct diff avg50 else Num 0)
        in Some \<lparr>row_name = ''50 DMA'',
                 row_amount = diff,
                 row_percent = pctDiff,
                 amount_class = sign_class diff,
                 percent_class = sign_class pctDiff\<rparr>
      else None)"

section \<open>updateDisplay\<close>

text \<open>
  The result is the exception thrown, if any, and the page as the call leaves it.
  The two guards return without a trace. A value without a numeric \<^verbatim>\<open>length\<close> makes
  \<open>totalDays\<close> \<^verbatim>\<open>undefined\<close> and \<open>startIdx\<close> \<^verbatim>\<open>NaN\<close>: the loop does not run, and
  \<open>currentPrice\<close> is \<^verbatim>\<open>undefined\<close>. The chart is replaced before
  \<^verbatim>\<open>currentPrice.toFixed(2)\<close> is reached, which throws a TypeError on \<^verbatim>\<open>undefined\<close>.
\<close>

definition updateDisplay ::
  "timezone \<Rightarrow> dataset option \<Rightarrow> string \<Rightarrow> page \<Rightarrow> js_error option \<times> page" where
  "updateDisplay tz metalsData metalName pg =
     (case metalsData of
        None \<Rightarrow> (None, pg)
      | Some data \<Rightarrow>
     (case metals data of
        None \<Rightarrow> (None, pg)
      | Some ms \<Rightarrow>
     (case js_get ms metalName of
        None \<Rightarrow> (None, pg)
      | Some metalSeries \<Rightarrow>
     (let startDate = start_date data in
      case js_length metalSeries of
        None \<Rightarrow>
          (Some TypeError,
           pg\<lparr>chart := Some \<lparr>chart_metal = metalName, chart_labels = [], chart_points = []\<rparr>\<rparr>)
      | Some totalDays \<Rightarrow>
     (case chartWindow tz startDate metalSeries totalDays 30 of
        Inl e \<Rightarrow> (Some e, pg)
      | Inr (chartLabels, chartPoints) \<Rightarrow>
     (let pg1 = pg\<lparr>chart := Some \<lparr>chart_metal = metalName,
                                    chart_labels = chartLabels,
                                    chart_points = chartPoints\<rparr>\<rparr>;
          currentPrice = js_index metalSeries (totalDays - 1)
      in
      if currentPrice = Undefined then (Some TypeError, pg1)
      else
     (let pg2 = pg1\<lparr>current_price := Some currentPrice\<rparr>;
          pg3 = updatePriceSummary metalName currentPrice
                  (prevPrice metalSeries totalDays currentPrice) pg2;
          rows = periodChanges metalSeries totalDays currentPrice periods;
          dma = (case movingAverageDeviation metalSeries totalDays currentPrice 50 of
                   None \<Rightarrow> []
                 | Some row \<Rightarrow> [row])
      in (None, pg3\<lparr>performance_body := rows @ dma\<rparr>))))))))"

section \<open>Page load\<close>

text \<open>
  \<^verbatim>\<open>initInterface\<close> installs the change listener of the select and shows its current
  option; \<^verbatim>\<open>initDarkMode\<close> applies the saved preference and installs the toggle.
\<close>

definition initInterface :: "timezone \<Rightarrow> dataset option \<Rightarrow> page \<Rightarrow> js_error option \<times> page" where
  "initInterface tz metalsData pg =
     updateDisplay tz metalsData (select_value pg) (pg\<lparr>change_listener := True\<rparr>)"

definition initDarkMode :: "page \<Rightarrow> page" where
  "initDarkMode pg =
     (let pg1 = (if saved_dark_mode pg = Some ''true'' then pg\<lparr>dark_mode := True\<rparr> else pg)
      in pg1\<lparr>toggle_listener := True\<rparr>)"

text \<open>
  The handler of \<^verbatim>\<open>DOMContentLoaded\<close>: without a dataset it reports on the console and
  in an alert, and installs nothing.
\<close>

definition domContentLoaded :: "timezone \<Rightarrow> dataset option \<Rightarrow> page \<Rightarrow> js_error option \<times> page" where
  "domContentLoaded tz metalsData pg =
     (if metalsData = None then
        (None, pg\<lparr>console_errors := console_errors pg
                      @ [''METALS_DATA is not defined. Ensure data.js is loaded.''],
                   alerts := alerts pg @ [''Sample data not loaded. Please check your setup.'']\<rparr>)
      else
        (case initInterface tz metalsData pg of
           (Some e, pg1) \<Rightarrow> (Some e, pg1)
         | (None, pg1) \<Rightarrow> (None, initDarkMode pg1)))"

text \<open>The change event of the select: handled only once the listener is installed.\<close>

definition selectChange :: "timezone \<Rightarrow> dataset option \<Rightarrow> string \<Rightarrow> page \<Rightarrow> js_error option \<times> page" where
  "selectChange tz metalsData v pg =
     (let pg1 = pg\<lparr>select_value := v\<rparr>
      in if change_listener pg1 then updateDisplay tz metalsData v pg1 else (None, pg1))"

text \<open>A sample dataset and a page on which nothing has been shown yet.\<close>

definition sample_metals :: "string \<rightharpoonup> double list" where
  "sample_metals = [''gold'' \<mapsto> [dbl 100, dbl 102, dbl 98, dbl 105], ''silver'' \<mapsto> []]"

definition sample_data :: dataset where
  "sample_data = \<lparr>start_date = date_only 2020 1 1, metals = Some sample_metals\<rparr>"

definition empty_page :: page where
  "empty_page =
     \<lparr>chart = None, current_price = None, summary_el = True, summary = None,
      performance_body = [], select_value = ''gold'', change_listener = False,
      dark_mode = False, saved_dark_mode = None, toggle_listener = False,
      console_errors = [], alerts = []\<rparr>"

section \<open>Rounding\<close>

lemma fl_0: "fl 0 = Num 0"
  by (simp add: fl_def)

lemma fl_cases: "fl x = PosInf \<or> fl x = NegInf \<or> (\<exists>y. fl x = Num y)"
  by (simp add: fl_def Let_def)

lemma pow2_pos: "0 < pow2 k"
  by (simp add: pow2_def)

lemma pow2_mono: "a \<le> b \<Longrightarrow> pow2 a \<le> pow2 b"
  by (simp add: pow2_powr)

lemma pow2_add: "pow2 (a + b) = pow2 a * pow2 b"
  by (simp add: pow2_powr powr_add)

lemma pow2_nat: "0 \<le> k \<Longrightarrow> pow2 k = of_int (2 ^ nat k)"
  by (simp add: pow2_def)

lemma ilog2_bounds: "0 < x \<Longrightarrow> pow2 (ilog2 x e) \<le> x \<and> x < pow2 (ilog2 x e + 1)"
proof (induction x e rule: ilog2.induct)
  case (1 x e)
  show ?case
  proof (cases "x < pow2 e")
    case True
    then show ?thesis using "1.IH"(1) "1.prems" by (subst (1 2) ilog2.simps) simp
  next
    case False
    show ?thesis
    proof (cases "pow2 (e + 1) \<le> x")
      case True
      then show ?thesis using False "1.IH"(2) "1.prems" by (subst (1 2) ilog2.simps) simp
    next
      case hi: False
      then show ?thesis using False "1.prems" by (subst (1 2) ilog2.simps) simp
    qed
  qed
qed

lemma rhe_ge_floor: "\<lfloor>y\<rfloor> \<le> rhe y"
  by (simp add: rhe_def Let_def)

text \<open>A real of magnitude at least \<open>2\<^sup>-\<^sup>1\<^sup>0\<^sup>7\<^sup>4\<close> is not rounded to zero.\<close>

lemma fl_nonzero:
  assumes "pow2 (- 1074) \<le> \<bar>x\<bar>"
  shows "fl x \<noteq> Num 0"
proof -
  define a where "a = \<bar>x\<bar>"
  define e where "e = max (ilog2 a 0) (- 1022)"
  define u where "u = pow2 (e - 52)"
  define r where "r = of_int (rhe (a / u)) * u"
  have apos: "0 < a" using assms pow2_pos[of "- 1074"] by (simp add: a_def)
  then have x0: "x \<noteq> 0" by (auto simp: a_def)
  have upos: "0 < u" by (simp add: u_def pow2_pos)
  have "u \<le> a"
  proof (cases "ilog2 a 0 \<le> - 1022")
    case True
    then have "e = - 1022" by (simp add: e_def)
    then show ?thesis using assms by (simp add: u_def a_def)
  next
    case False
    then have "e = ilog2 a 0" by (simp add: e_def)
    moreover have "pow2 (e - 52) \<le> pow2 e" by (rule pow2_mono) simp
    ultimately show ?thesis using ilog2_bounds[OF apos, of 0] by (simp add: u_def)
  qed
  then have "1 \<le> a / u" using upos by simp
  then have "1 \<le> \<lfloor>a / u\<rfloor>" by linarith
  then have "1 \<le> rhe (a / u)" using rhe_ge_floor[of "a / u"] by linarith
  then have "(1::real) \<le> of_int (rhe (a / u))" by linarith
  then have "0 < r" using upos unfolding r_def by (simp add: mult_pos_pos)
  then show ?thesis
    using x0 by (simp add: fl_def Let_def a_def[symmetric] e_def[symmetric] u_def[symmetric] r_def[symmetric])
qed

text \<open>Every double is an integer multiple of \<open>2\<^sup>-\<^sup>1\<^sup>0\<^sup>7\<^sup>4\<close>.\<close>

lemma double_multiple:
  assumes "is_double x"
  shows "\<exists>k::int. x = of_int k * pow2 (- 1074)"
proof (cases "x = 0")
  case True
  then show ?thesis by (intro exI[of _ 0]) simp
next
  case False
  define a where "a = \<bar>x\<bar>"
  define e where "e = max (ilog2 a 0) (- 1022)"
  define u where "u = pow2 (e - 52)"
  define m where "m = rhe (a / u)"
  have fx: "fl x = (if pow2 1024 \<le> of_int m * u then (if 0 < x then PosInf else NegInf)
                    else Num (if 0 < x then of_int m * u else - (of_int m * u)))"
    using False by (simp add: fl_def Let_def a_def[symmetric] e_def[symmetric] u_def[symmetric] m_def[symmetric])
  have "fl x = Num x" using assms by (simp add: is_double_def)
  then have x: "x = (if 0 < x then of_int m * u else - (of_int m * u))"
    using fx by (auto split: if_splits)
  have "0 \<le> e + 1022" by (simp add: e_def)
  then have "pow2 (e + 1022) = of_int (2 ^ nat (e + 1022))" by (rule pow2_nat)
  moreover have "u = pow2 (e + 1022) * pow2 (- 1074)"
    unfolding u_def by (simp add: pow2_add[symmetric])
  ultimately have u: "u = of_int (2 ^ nat (e + 1022)) * pow2 (- 1074)" by simp
  show ?thesis
  proof (cases "0 < x")
    case True
    then have "x = of_int (m * 2 ^ nat (e + 1022)) * pow2 (- 1074)" using x u by simp
    then show ?thesis by blast
  next
    case False
    then have "x = of_int (- (m * 2 ^ nat (e + 1022))) * pow2 (- 1074)" using x u by simp
    then show ?thesis by blast
  qed
qed

text \<open>The difference of two distinct doubles does not round to zero.\<close>

lemma double_diff_nonzero:
  assumes "is_double a" and "is_double b" and "a \<noteq> b"
  shows "fl (a - b) \<noteq> Num 0"
proof -
  obtain k l :: int where a: "a = of_int k * pow2 (- 1074)" and b: "b = of_int l * pow2 (- 1074)"
    using double_multiple[OF assms(1)] double_multiple[OF assms(2)] by blast
  have kl: "k \<noteq> l" using assms(3) a b by auto
  have "a - b = of_int (k - l) * pow2 (- 1074)" using a b by (simp add: algebra_simps)
  then have "\<bar>a - b\<bar> = of_int \<bar>k - l\<bar> * pow2 (- 1074)"
    using pow2_pos[of "- 1074"] by (simp add: abs_mult)
  moreover have "(1::real) \<le> of_int \<bar>k - l\<bar>" using kl by linarith
  ultimately have "pow2 (- 1074) \<le> \<bar>a - b\<bar>"
    using pow2_pos[of "- 1074"] by (simp add: mult_le_cancel_right1)
  then show ?thesis by (rule fl_nonzero)
qed

lemma is_double_val: "is_double (val d)"
  using val[of d] by simp

lemma js_pct_zero: "y \<noteq> 0 \<Longrightarrow> js_pct (Num 0) (Num y) = Num 0"
  by (simp add: js_pct_def fl_0)

text \<open>The quotient by zero that the guards \<^verbatim>\<open>!== 0\<close> keep away is never a finite number.\<close>

lemma js_pct_zero_divisor:
  "js_pct a (Num 0) = NaN \<or> js_pct a (Num 0) = PosInf \<or> js_pct a (Num 0) = NegInf"
  by (cases a) (simp_all add: js_pct_def inf_signed_def)

lemma pow2_less_iff: "pow2 a < pow2 b \<longleftrightarrow> a < b"
  by (simp add: pow2_powr)

lemma ilog2_eq:
  assumes "0 < x" and "pow2 e \<le> x" and "x < pow2 (e + 1)"
  shows "ilog2 x e0 = e"
proof -
  define i where "i = ilog2 x e0"
  have b: "pow2 i \<le> x" "x < pow2 (i + 1)"
    using ilog2_bounds[OF assms(1), of e0] by (simp_all add: i_def)
  have "pow2 i < pow2 (e + 1)" using b(1) assms(3) by linarith
  then have "i < e + 1" by (simp add: pow2_less_iff)
  moreover have "pow2 e < pow2 (i + 1)" using b(2) assms(2) by linarith
  then have "e < i + 1" by (simp add: pow2_less_iff)
  ultimately show ?thesis unfolding i_def by linarith
qed

lemma rhe_of_int: "rhe (of_int j) = j"
  by (simp add: rhe_def)

text \<open>Rounding a positive real whose binary exponent is known.\<close>

lemma fl_eval:
  assumes "0 < x" and "pow2 e \<le> x" and "x < pow2 (e + 1)"
    and "r = of_int (rhe (x / pow2 (max e (- 1022) - 52))) * pow2 (max e (- 1022) - 52)"
    and "r < pow2 1024"
  shows "fl x = Num r" and "fl (- x) = Num (- r)"
proof -
  have i: "ilog2 x 0 = e" using assms(1,2,3) by (rule ilog2_eq)
  show "fl x = Num r"
    using assms(1,4,5) i by (simp add: fl_def Let_def)
  show "fl (- x) = Num (- r)"
    using assms(1,4,5) i by (simp add: fl_def Let_def)
qed

text \<open>
  A real \<open>m * 2\<^sup>k\<close> with \<open>|m| < 2\<^sup>5\<^sup>3\<close> and \<open>k\<close> from \<open>-1074\<close> to \<open>971\<close> is a double: rounding
  leaves it as it is.
\<close>

lemma fl_exact:
  assumes x: "x = of_int m * pow2 k" and m: "\<bar>m\<bar> < 2 ^ 53" and k: "- 1074 \<le> k" "k \<le> 971"
  shows "fl x = Num x"
proof (cases "m = 0")
  case True
  then show ?thesis using x by (simp add: fl_def)
next
  case False
  define a where "a = \<bar>x\<bar>"
  define e where "e = max (ilog2 a 0) (- 1022)"
  define u where "u = pow2 (e - 52)"
  have a: "a = of_int \<bar>m\<bar> * pow2 k"
    using x pow2_pos[of k] by (simp add: a_def abs_mult)
  have apos: "0 < a" using False a pow2_pos[of k] by simp
  have x0: "x \<noteq> 0" using apos by (auto simp: a_def)
  have m53: "of_int \<bar>m\<bar> < pow2 53"
  proof -
    have "(of_int \<bar>m\<bar> :: real) < of_int (2 ^ 53)" using m by (simp only: of_int_less_iff)
    then show ?thesis by (simp add: pow2_def)
  qed
  have lt: "a < pow2 (53 + k)"
    using m53 pow2_pos[of k] unfolding a pow2_add by (simp add: mult_strict_right_mono)
  have ek: "e - 52 \<le> k"
  proof (cases "ilog2 a 0 \<le> - 1022")
    case True
    then show ?thesis using k by (simp add: e_def)
  next
    case False
    then have "e = ilog2 a 0" by (simp add: e_def)
    then have "pow2 e \<le> a" using ilog2_bounds[OF apos, of 0] by simp
    then have "pow2 e < pow2 (53 + k)" using lt by linarith
    then show ?thesis by (simp add: pow2_less_iff)
  qed
  define j where "j = \<bar>m\<bar> * 2 ^ nat (k - (e - 52))"
  have "pow2 k = pow2 (k - (e - 52)) * u"
    unfolding u_def by (simp add: pow2_add[symmetric])
  moreover have "pow2 (k - (e - 52)) = of_int (2 ^ nat (k - (e - 52)))"
    using ek by (intro pow2_nat) simp
  ultimately have au: "a = of_int j * u" using a by (simp add: j_def)
  have upos: "0 < u" by (simp add: u_def pow2_pos)
  have "a / u = of_int j" using au upos by simp
  then have r: "of_int (rhe (a / u)) * u = a" using au by (simp add: rhe_of_int)
  have "pow2 (53 + k) \<le> pow2 1024" using k by (intro pow2_mono) simp
  then have nov: "\<not> pow2 1024 \<le> a" using lt by linarith
  have "fl x = Num (if 0 < x then a else - a)"
    using x0 r nov
    by (simp add: fl_def Let_def a_def[symmetric] e_def[symmetric] u_def[symmetric])
  then show ?thesis by (simp add: a_def)
qed

lemma fl_int: "\<bar>m\<bar> < 2 ^ 53 \<Longrightarrow> fl (of_int m) = Num (of_int m)"
  using fl_exact[of "of_int m" m 0] by (simp add: pow2_def)

lemma fl_numeral: "numeral n < (2::int) ^ 53 \<Longrightarrow> fl (numeral n) = Num (numeral n)"
  using fl_int[of "numeral n"] by simp

lemma fl_neg_numeral: "numeral n < (2::int) ^ 53 \<Longrightarrow> fl (- numeral n) = Num (- numeral n)"
  using fl_int[of "- numeral n"] by simp

lemma fl_1: "fl 1 = Num 1"
  using fl_int[of 1] by simp

lemma val_dbl_double: "is_double x \<Longrightarrow> val (dbl x) = x"
  by (simp add: val_dbl is_double_def)

lemma val_dbl_numeral: "numeral n < (2::int) ^ 53 \<Longrightarrow> val (dbl (numeral n)) = numeral n"
  by (rule val_dbl_double) (simp add: is_double_def fl_numeral)

lemma val_dbl_neg_numeral:
  "numeral n < (2::int) ^ 53 \<Longrightarrow> val (dbl (- numeral n)) = - numeral n"
  by (rule val_dbl_double) (simp add: is_double_def fl_neg_numeral)

lemma val_dbl_0: "val (dbl 0) = 0"
  by (rule val_dbl_double) (simp add: is_double_def fl_0)

lemma val_dbl_1: "val (dbl 1) = 1"
  by (rule val_dbl_double) (simp add: is_double_def fl_1)

lemmas double_simps =
  fl_0 fl_1 fl_numeral fl_neg_numeral val_dbl_0 val_dbl_1 val_dbl_numeral val_dbl_neg_numeral

lemma rhe_le: "y \<le> of_int j \<Longrightarrow> rhe y \<le> j"
proof -
  assume h: "y \<le> of_int j"
  show ?thesis
  proof (cases "y = of_int j")
    case True
    then show ?thesis by (simp add: rhe_of_int)
  next
    case False
    then have "y < of_int j" using h by simp
    then have "\<lfloor>y\<rfloor> < j" by linarith
    then have "\<lfloor>y\<rfloor> + 1 \<le> j" by simp
    moreover have "rhe y \<le> \<lfloor>y\<rfloor> + 1" by (simp add: rhe_def Let_def)
    ultimately show ?thesis by linarith
  qed
qed

lemma rhe_nonneg: "0 \<le> y \<Longrightarrow> 0 \<le> rhe y"
  using rhe_ge_floor[of y] by (simp add: order_trans[of 0 "\<lfloor>y\<rfloor>"])

text \<open>What rounding returns is a double: rounding is idempotent.\<close>

lemma fl_is_double:
  assumes "fl x = Num y"
  shows "is_double y"
proof (cases "x = 0")
  case True
  then show ?thesis using assms by (auto simp: fl_0 is_double_def)
next
  case False
  define a where "a = \<bar>x\<bar>"
  define e where "e = max (ilog2 a 0) (- 1022)"
  define u where "u = pow2 (e - 52)"
  define m where "m = rhe (a / u)"
  have apos: "0 < a" using False by (simp add: a_def)
  have upos: "0 < u" by (simp add: u_def pow2_pos)
  have fx: "fl x = (if pow2 1024 \<le> of_int m * u then (if 0 < x then PosInf else NegInf)
                    else Num (if 0 < x then of_int m * u else - (of_int m * u)))"
    using False by (simp add: fl_def Let_def a_def[symmetric] e_def[symmetric] u_def[symmetric] m_def[symmetric])
  have nov: "of_int m * u < pow2 1024" using fx assms by (auto split: if_splits)
  have y: "y = (if 0 < x then of_int m * u else - (of_int m * u))"
    using fx assms by (auto split: if_splits)
  have m0: "0 \<le> m" unfolding m_def using apos upos by (intro rhe_nonneg) simp
  have e_lo: "- 1022 \<le> e" by (simp add: e_def)
  have a_hi: "a < pow2 (e + 1)"
  proof -
    have "a < pow2 (ilog2 a 0 + 1)" using ilog2_bounds[OF apos, of 0] by simp
    also have "\<dots> \<le> pow2 (e + 1)" by (intro pow2_mono) (simp add: e_def)
    finally show ?thesis .
  qed
  have "pow2 (e + 1) = of_int (2 ^ 53) * u"
  proof -
    have "pow2 (53 + (e - 52)) = pow2 53 * pow2 (e - 52)" by (rule pow2_add)
    moreover have "53 + (e - 52) = e + 1" by simp
    ultimately have "pow2 (e + 1) = pow2 53 * pow2 (e - 52)" by simp
    then show ?thesis by (simp add: u_def pow2_def)
  qed
  then have "a / u \<le> of_int (2 ^ 53)" using a_hi upos by (simp add: pos_divide_le_eq)
  then have m53: "m \<le> 2 ^ 53" unfolding m_def by (rule rhe_le)
  have e_hi: "e \<le> 1023"
  proof (rule ccontr)
    assume "\<not> e \<le> 1023"
    then have big: "1024 \<le> e" by simp
    then have "e = ilog2 a 0" by (simp add: e_def)
    then have "pow2 e \<le> a" using ilog2_bounds[OF apos, of 0] by simp
    moreover have pe: "pow2 e = of_int (2 ^ 52) * u"
    proof -
      have "pow2 (52 + (e - 52)) = pow2 52 * pow2 (e - 52)" by (rule pow2_add)
      moreover have "52 + (e - 52) = e" by simp
      ultimately have "pow2 e = pow2 52 * pow2 (e - 52)" by simp
      then show ?thesis by (simp add: u_def pow2_def)
    qed
    ultimately have "of_int (2 ^ 52) \<le> a / u" using upos by (simp add: pos_le_divide_eq)
    then have "2 ^ 52 \<le> \<lfloor>a / u\<rfloor>" by (simp add: le_floor_iff)
    then have "2 ^ 52 \<le> m" unfolding m_def using rhe_ge_floor[of "a / u"] by linarith
    then have "(of_int (2 ^ 52) :: real) \<le> of_int m" by (simp only: of_int_le_iff)
    then have "of_int (2 ^ 52) * u \<le> of_int m * u" using upos by (simp add: mult_right_mono)
    then have "pow2 e \<le> of_int m * u" using pe by simp
    moreover have "pow2 1024 \<le> pow2 e" using big by (rule pow2_mono)
    ultimately show False using nov by linarith
  qed
  have mag: "fl (of_int m * u) = Num (of_int m * u) \<and> fl (- (of_int m * u)) = Num (- (of_int m * u))"
  proof (cases "m = 2 ^ 53")
    case True
    have "e + 1 \<le> 1023"
    proof (rule ccontr)
      assume "\<not> e + 1 \<le> 1023"
      then have "e = 1023" using e_hi by simp
      then have "of_int m * u = pow2 1024" using True by (simp add: u_def pow2_def)
      then show False using nov by simp
    qed
    have mu: "of_int m * u = of_int (2 ^ 52) * pow2 (e - 51)"
    proof -
      have "pow2 (1 + (e - 52)) = pow2 1 * pow2 (e - 52)" by (rule pow2_add)
      moreover have "1 + (e - 52) = e - 51" by simp
      ultimately have "pow2 (e - 51) = pow2 1 * pow2 (e - 52)" by simp
      then show ?thesis using True by (simp add: u_def pow2_def)
    qed
    have p: "fl (of_int (2 ^ 52) * pow2 (e - 51)) = Num (of_int (2 ^ 52) * pow2 (e - 51))"
      using e_lo \<open>e + 1 \<le> 1023\<close> by (intro fl_exact[of _ "2 ^ 52" "e - 51"]) simp_all
    have n: "fl (of_int (- (2 ^ 52)) * pow2 (e - 51)) = Num (of_int (- (2 ^ 52)) * pow2 (e - 51))"
      using e_lo \<open>e + 1 \<le> 1023\<close> by (intro fl_exact[of _ "- (2 ^ 52)" "e - 51"]) simp_all
    show ?thesis using p n mu by simp
  next
    case False
    then have lt: "\<bar>m\<bar> < 2 ^ 53" using m53 m0 by simp
    have p: "fl (of_int m * pow2 (e - 52)) = Num (of_int m * pow2 (e - 52))"
      using e_lo e_hi lt by (intro fl_exact[of _ m "e - 52"]) simp_all
    have n: "fl (of_int (- m) * pow2 (e - 52)) = Num (of_int (- m) * pow2 (e - 52))"
      using e_lo e_hi lt by (intro fl_exact[of _ "- m" "e - 52"]) simp_all
    show ?thesis using p n by (simp add: u_def)
  qed
  show ?thesis using mag y by (simp add: is_double_def)
qed

lemma val_dbl_nearest: "fl x = Num y \<Longrightarrow> val (dbl x) = y"
  using fl_is_double[of x y] by (simp add: val_dbl)

section \<open>Reading a series\<close>

lemma js_index_last:
  "xs \<noteq> [] \<Longrightarrow> js_index (Array xs) (int (length xs) - 1) = Num (val (last xs))"
  by (cases xs rule: rev_cases) (simp_all add: nat_diff_distrib' nth_append)

lemma pastPrice_Array:
  assumes "xs \<noteq> []" and "1 \<le> d"
  shows "pastPrice (Array xs) (int (length xs)) d =
           Num (val (if 0 \<le> int (length xs) - d then xs ! nat (int (length xs) - d) else xs ! 0))"
  using assms by (simp add: pastPrice_def Let_def)

section \<open>The loops\<close>

lemma chartLoop_run:
  "(\<forall>j. i \<le> j \<and> j < n \<longrightarrow> \<not> isl (dateLabel tz sd j)) \<Longrightarrow>
   chartLoop tz sd v n i ls ps =
     Inr (ls @ map (\<lambda>j. projr (dateLabel tz sd j)) [i..n - 1], ps @ map (js_index v) [i..n - 1])"
proof (induction tz sd v n i ls ps rule: chartLoop.induct)
  case (1 tz sd v n i ls ps)
  show ?case
  proof (cases "i < n")
    case False
    then show ?thesis by (subst chartLoop.simps) simp
  next
    case True
    then have "\<not> isl (dateLabel tz sd i)" using "1.prems" by simp
    then obtain s where s: "dateLabel tz sd i = Inr s" by (cases "dateLabel tz sd i") auto
    have rest: "\<forall>j. i + 1 \<le> j \<and> j < n \<longrightarrow> \<not> isl (dateLabel tz sd j)"
      using "1.prems" by simp
    have up: "[i..n - 1] = i # [i + 1..n - 1]"
      using True by (simp add: upto_rec1)
    have step: "chartLoop tz sd v n i ls ps =
                  chartLoop tz sd v n (i + 1) (ls @ [s]) (ps @ [js_index v i])"
      using True s by (subst chartLoop.simps) simp
    show ?thesis
      using "1.IH"[OF True s rest] s up step by simp
  qed
qed

lemma upto_nth_drop:
  "0 \<le> i \<Longrightarrow> i \<le> int (length xs) \<Longrightarrow>
   map (js_index (Array xs)) [i..int (length xs) - 1] = map (\<lambda>x. Num (val x)) (drop (nat i) xs)"
proof (induction "nat (int (length xs) - i)" arbitrary: i)
  case 0
  then show ?case by simp
next
  case (Suc k)
  then have lt: "i < int (length xs)" by linarith
  have up: "[i..int (length xs) - 1] = i # [i + 1..int (length xs) - 1]"
    using lt by (simp add: upto_rec1)
  have dr: "drop (nat i) xs = xs ! nat i # drop (nat (i + 1)) xs"
    using lt Suc.prems by (simp add: Cons_nth_drop_Suc nat_add_distrib)
  have "k = nat (int (length xs) - (i + 1))" using Suc.hyps(2) by linarith
  from Suc.hyps(1)[OF this] Suc.prems lt
  have "map (js_index (Array xs)) [i + 1..int (length xs) - 1]
          = map (\<lambda>x. Num (val x)) (drop (nat (i + 1)) xs)"
    by simp
  then show ?case using up dr lt Suc.prems by simp
qed

text \<open>The summing loop adds the elements from index \<open>i\<close> on, in order, rounding each sum.\<close>

lemma sumLoop_Array:
  "0 \<le> i \<Longrightarrow> i \<le> int (length xs) \<Longrightarrow>
   sumLoop (Array xs) (int (length xs)) i acc =
     foldl js_add acc (map (\<lambda>x. Num (val x)) (drop (nat i) xs))"
proof (induction "Array xs" "int (length xs)" i acc rule: sumLoop.induct)
  case (1 i acc)
  show ?case
  proof (cases "i < int (length xs)")
    case False
    then show ?thesis using "1.prems" by (subst sumLoop.simps) simp
  next
    case True
    have dr: "drop (nat i) xs = xs ! nat i # drop (nat (i + 1)) xs"
      using True "1.prems" by (simp add: Cons_nth_drop_Suc nat_add_distrib)
    have read: "js_index (Array xs) i = Num (val (xs ! nat i))"
      using True "1.prems" by simp
    have step: "sumLoop (Array xs) (int (length xs)) i acc =
                  sumLoop (Array xs) (int (length xs)) (i + 1) (js_add acc (js_index (Array xs) i))"
      using True by (subst sumLoop.simps) simp
    have "sumLoop (Array xs) (int (length xs)) (i + 1) (js_add acc (js_index (Array xs) i)) =
            foldl js_add (js_add acc (js_index (Array xs) i))
              (map (\<lambda>x. Num (val x)) (drop (nat (i + 1)) xs))"
      using "1.hyps"[OF True] True "1.prems" by simp
    then show ?thesis using step read dr by simp
  qed
qed

section \<open>Period changes\<close>

lemma periodRow_Array:
  assumes "xs \<noteq> []" and "1 \<le> period_days p"
    and "past = (if 0 \<le> int (length xs) - period_days p
                 then xs ! nat (int (length xs) - period_days p) else xs ! 0)"
  shows "periodRow (Array xs) (int (length xs)) (Num c) p =
           \<lparr>row_name = period_name p,
            row_amount = fl (c - val past),
            row_percent = (if val past = 0 then Num 0
                           else js_pct (fl (c - val past)) (Num (val past))),
            amount_class = sign_class (fl (c - val past)),
            percent_class = sign_class (if val past = 0 then Num 0
                                        else js_pct (fl (c - val past)) (Num (val past)))\<rparr>"
  using pastPrice_Array[OF assms(1,2)] assms(3)
  by (simp add: periodRow_def Let_def js_nonzero_def)

text \<open>
  Claim C1. For a non-empty series of length \<open>n\<close> and periods that look back
  \<open>d \<ge> 1\<close> days, the reference price of a period is \<open>series[n - d]\<close> when
  \<open>n - d \<ge> 0\<close> and \<open>series[0]\<close>, the earliest price, otherwise. Every period has
  its row, in the order of the periods, and the amount of the row is the current price
  minus that reference (the difference as a double): no row is dropped and none is
  \<^verbatim>\<open>NaN\<close>.
\<close>

theorem periodChanges_fallback:
  assumes "xs \<noteq> []" and "\<forall>p\<in>set ps. 1 \<le> period_days p"
  shows "length (periodChanges (Array xs) (int (length xs)) (Num (val (last xs))) ps) = length ps
    \<and> (\<forall>k<length ps.
         pastPrice (Array xs) (int (length xs)) (period_days (ps ! k)) =
           Num (val (if 0 \<le> int (length xs) - period_days (ps ! k)
                     then xs ! nat (int (length xs) - period_days (ps ! k)) else xs ! 0))
         \<and> row_name (periodChanges (Array xs) (int (length xs)) (Num (val (last xs))) ps ! k)
             = period_name (ps ! k)
         \<and> row_amount (periodChanges (Array xs) (int (length xs)) (Num (val (last xs))) ps ! k) =
             fl (val (last xs) - val (if 0 \<le> int (length xs) - period_days (ps ! k)
                                      then xs ! nat (int (length xs) - period_days (ps ! k))
                                      else xs ! 0)))"
proof -
  have len: "length (periodChanges (Array xs) (int (length xs)) (Num (val (last xs))) ps) = length ps"
    by (simp add: periodChanges_def)
  have row: "pastPrice (Array xs) (int (length xs)) (period_days (ps ! k)) =
           Num (val (if 0 \<le> int (length xs) - period_days (ps ! k)
                     then xs ! nat (int (length xs) - period_days (ps ! k)) else xs ! 0))
         \<and> row_name (periodChanges (Array xs) (int (length xs)) (Num (val (last xs))) ps ! k)
             = period_name (ps ! k)
         \<and> row_amount (periodChanges (Array xs) (int (length xs)) (Num (val (last xs))) ps ! k) =
             fl (val (last xs) - val (if 0 \<le> int (length xs) - period_days (ps ! k)
                                      then xs ! nat (int (length xs) - period_days (ps ! k))
                                      else xs ! 0))"
    if k: "k < length ps" for k
  proof -
    have d: "1 \<le> period_days (ps ! k)" using assms(2) k by simp
    have nth: "periodChanges (Array xs) (int (length xs)) (Num (val (last xs))) ps ! k =
                 periodRow (Array xs) (int (length xs)) (Num (val (last xs))) (ps ! k)"
      using k by (simp add: periodChanges_def)
    show ?thesis
      using pastPrice_Array[OF assms(1) d] periodRow_Array[OF assms(1) d refl, of "val (last xs)"] nth
      by simp
  qed
  show ?thesis using len row by blast
qed

theorem periodChanges_fallback_witness:
  "[dbl 1, dbl 5, dbl 20, dbl 30, dbl 40, dbl 42, dbl 50, dbl 98, dbl 100, dbl 10] \<noteq> []
   \<and> 1 \<le> period_days \<lparr>period_name = ''1 Year'', period_days = 365\<rparr>
   \<and> length (periodChanges
         (Array [dbl 1, dbl 5, dbl 20, dbl 30, dbl 40, dbl 42, dbl 50, dbl 98, dbl 100, dbl 10])
         10 (Num 10) [\<lparr>period_name = ''1 Year'', period_days = 365\<rparr>]) = 1
   \<and> pastPrice
         (Array [dbl 1, dbl 5, dbl 20, dbl 30, dbl 40, dbl 42, dbl 50, dbl 98, dbl 100, dbl 10])
         10 365 = Num 1
   \<and> row_amount (periodChanges
         (Array [dbl 1, dbl 5, dbl 20, dbl 30, dbl 40, dbl 42, dbl 50, dbl 98, dbl 100, dbl 10])
         10 (Num 10) [\<lparr>period_name = ''1 Year'', period_days = 365\<rparr>] ! 0) = Num 9"
proof -
  have nine: "fl (10 - 1) = Num 9" by code_simp
  show ?thesis
    using nine
      periodChanges_fallback[of
        "[dbl 1, dbl 5, dbl 20, dbl 30, dbl 40, dbl 42, dbl 50, dbl 98, dbl 100, dbl 10]"
        "[\<lparr>period_name = ''1 Year'', period_days = 365\<rparr>]"]
    by (simp add: double_simps)
qed

section \<open>The chart window\<close>

text \<open>
  The points of the chart and the indices of its labels. For a series of length
  \<open>n \<ge> 1\<close> and a window of \<open>w \<ge> 1\<close> days, the chart loop returns \<open>min n w\<close> labels and
  as many points; point \<open>k\<close> is the price at index \<open>n - min n w + k\<close>, paired with the
  label computed for that index; the last point is \<open>series[n - 1]\<close>, and for \<open>n < w\<close>
  the points are the whole series. The loop fails only with the RangeError of
  \<^verbatim>\<open>toISOString\<close>; the hypothesis is that the dates of the window can be rendered.
\<close>

lemma chartWindow_size:
  assumes "xs \<noteq> []" and "1 \<le> w"
    and "\<forall>i. max 0 (int (length xs) - w) \<le> i \<and> i < int (length xs) \<longrightarrow> \<not> isl (dateLabel tz sd i)"
  shows "\<exists>labels points.
      chartWindow tz sd (Array xs) (int (length xs)) w = Inr (labels, points)
      \<and> length points = min (length xs) (nat w)
      \<and> length labels = min (length xs) (nat w)
      \<and> (\<forall>k < min (length xs) (nat w).
           points ! k = Num (val (xs ! (length xs - min (length xs) (nat w) + k)))
           \<and> labels ! k = projr (dateLabel tz sd (int (length xs - min (length xs) (nat w) + k))))
      \<and> last points = Num (val (last xs))
      \<and> (int (length xs) < w \<longrightarrow> points = map (\<lambda>x. Num (val x)) xs)"
proof -
  define n where "n = int (length xs)"
  define st where "st = max 0 (n - w)"
  define m where "m = min (length xs) (nat w)"
  define labels where "labels = map (\<lambda>j. projr (dateLabel tz sd j)) [st..n - 1]"
  define points where "points = map (js_index (Array xs)) [st..n - 1]"
  have st0: "0 \<le> st" and stn: "st \<le> n" using assms(2) by (simp_all add: st_def n_def)
  have nst: "nat st = length xs - m" using assms(2) unfolding st_def n_def m_def by linarith
  have m_pos: "0 < m" using assms(1,2) by (simp add: m_def)
  have m_le: "m \<le> length xs" by (simp add: m_def)
  have run: "chartWindow tz sd (Array xs) n w = Inr (labels, points)"
    using chartLoop_run[of st n tz sd "Array xs" "[]" "[]"] assms(3)
    by (simp add: chartWindow_def Let_def st_def n_def labels_def points_def)
  have pts: "points = map (\<lambda>x. Num (val x)) (drop (length xs - m) xs)"
    using upto_nth_drop[of st xs] st0 stn nst by (simp add: points_def n_def)
  have lenp: "length points = m" using pts m_le by simp
  have lenl: "length labels = m"
    using st0 stn nst m_le by (simp add: labels_def n_def)
  have nthp: "points ! k = Num (val (xs ! (length xs - m + k)))" if "k < m" for k
    using that pts m_le by simp
  have nthl: "labels ! k = projr (dateLabel tz sd (int (length xs - m + k)))" if "k < m" for k
  proof -
    have "st + int k \<le> n - 1" using that nst st0 m_le by (simp add: n_def)
    then have "[st..n - 1] ! k = st + int k" by (rule nth_upto)
    moreover have "k < length [st..n - 1]" using that lenl by (simp add: labels_def)
    moreover have "st + int k = int (length xs - m + k)" using nst st0 by linarith
    ultimately show ?thesis by (simp add: labels_def)
  qed
  have lastp: "last points = Num (val (last xs))"
  proof -
    have "drop (length xs - m) xs \<noteq> []" using m_pos m_le assms(1) by simp
    then show ?thesis using pts by (simp add: last_map)
  qed
  have whole: "points = map (\<lambda>x. Num (val x)) xs" if "int (length xs) < w"
  proof -
    have "m = length xs" using that by (simp add: m_def)
    then show ?thesis using pts by simp
  qed
  show ?thesis
    using run lenp lenl nthp nthl lastp whole unfolding n_def m_def by blast
qed

section \<open>Moving average and day change\<close>

lemma prevPrice_Array:
  assumes "xs \<noteq> []"
  shows "prevPrice (Array xs) (int (length xs)) (Num (val (last xs))) =
           Num (val (if 2 \<le> length xs then xs ! (length xs - 2) else last xs))"
  using assms by (auto simp: prevPrice_def nat_diff_distrib')

lemma movingAverage_Array:
  assumes "xs \<noteq> []" and "1 \<le> l"
  shows "movingAverage (Array xs) (int (length xs)) l =
           js_div (foldl js_add (Num 0)
                     (map (\<lambda>x. Num (val x)) (drop (length xs - min (nat l) (length xs)) xs)))
                  (Num (real (min (nat l) (length xs))))"
proof -
  define n where "n = int (length xs)"
  define lookback where "lookback = min l n"
  have pos: "1 \<le> lookback" using assms by (cases xs) (simp_all add: lookback_def n_def)
  have le: "lookback \<le> n" by (simp add: lookback_def)
  have k: "nat lookback = min (nat l) (length xs)" using assms(2) unfolding lookback_def n_def by linarith
  have st: "nat (n - lookback) = length xs - min (nat l) (length xs)"
    using k pos le unfolding n_def by linarith
  have "sumLoop (Array xs) n (n - lookback) (Num 0) =
          foldl js_add (Num 0) (map (\<lambda>x. Num (val x)) (drop (nat (n - lookback)) xs))"
    unfolding n_def using pos le by (intro sumLoop_Array) (simp_all add: n_def)
  moreover have "real_of_int lookback = real (min (nat l) (length xs))"
    using k pos by (metis of_nat_nat order.trans zero_le_one of_int_of_nat_eq)
  ultimately show ?thesis
    using st by (simp add: movingAverage_def Let_def n_def[symmetric] lookback_def[symmetric])
qed



text \<open>
  The sums are rounded as the script's are: for a flat series of three prices 0.1 the
  average is one unit in the last place above the price, and the row shows a loss.
\<close>

lemma fl_tenth: "fl (1 / 10) = Num (3602879701896397 / 36028797018963968)"
  using fl_eval(1)[of "1 / 10" "- 4" "3602879701896397 / 36028797018963968"]
  by (simp add: pow2_def rhe_def Let_def)

lemma is_double_tenth: "is_double (3602879701896397 / 36028797018963968)"
  unfolding is_double_def
  using fl_exact[of "3602879701896397 / 36028797018963968" 3602879701896397 "- 55"]
  by (simp add: pow2_def)

lemma val_dbl_tenth: "val (dbl (1 / 10)) = 3602879701896397 / 36028797018963968"
  by (simp add: val_dbl fl_tenth is_double_tenth)

lemma flat_sum1: "fl (0 + 3602879701896397 / 36028797018963968) = Num (3602879701896397 / 36028797018963968)"
  using is_double_tenth by (simp add: is_double_def)

lemma flat_sum2: "fl (3602879701896397 / 36028797018963968 + 3602879701896397 / 36028797018963968)
           = Num (3602879701896397 / 18014398509481984)"
  using fl_exact[of "3602879701896397 / 18014398509481984" 3602879701896397 "- 54"]
  by (simp add: pow2_def)

lemma flat_sum3: "fl (3602879701896397 / 18014398509481984 + 3602879701896397 / 36028797018963968)
           = Num (1351079888211149 / 4503599627370496)"
  using fl_eval(1)[of "10808639105689191 / 36028797018963968" "- 2" "1351079888211149 / 4503599627370496"]
  by (simp add: pow2_def rhe_def Let_def)

lemma flat_avg: "fl (1351079888211149 / 4503599627370496 / 3) = Num (7205759403792795 / 72057594037927936)"
  using fl_eval(1)[of "1351079888211149 / 13510798882111488" "- 4" "7205759403792795 / 72057594037927936"]
  by (simp add: pow2_def rhe_def Let_def)

lemma flat_diff: "fl (3602879701896397 / 36028797018963968 - 7205759403792795 / 72057594037927936)
           = Num (- (1 / 72057594037927936))"
  using fl_exact[of "- (1 / 72057594037927936)" "- 1" "- 56"]
  by (simp add: pow2_def)

lemma flat_series_rounds:
  "\<exists>r. movingAverageDeviation (Array [dbl (1 / 10), dbl (1 / 10), dbl (1 / 10)]) 3
          (Num (val (dbl (1 / 10)))) 50 = Some r
       \<and> row_amount r = Num (- (1 / 72057594037927936))
       \<and> amount_class r = ''negative''"
proof -
  have idx: "js_index (Array [dbl (1 / 10), dbl (1 / 10), dbl (1 / 10)]) 0 = Num (3602879701896397 / 36028797018963968)"
       "js_index (Array [dbl (1 / 10), dbl (1 / 10), dbl (1 / 10)]) 1 = Num (3602879701896397 / 36028797018963968)"
       "js_index (Array [dbl (1 / 10), dbl (1 / 10), dbl (1 / 10)]) 2 = Num (3602879701896397 / 36028797018963968)"
    by (simp_all add: val_dbl_tenth)
  have avg: "movingAverage (Array [dbl (1 / 10), dbl (1 / 10), dbl (1 / 10)]) 3 50
               = Num (7205759403792795 / 72057594037927936)"
    using sumLoop_Array[of 0 "[dbl (1 / 10), dbl (1 / 10), dbl (1 / 10)]" "Num 0"] flat_sum1 flat_sum2 flat_sum3 flat_avg
    by (simp add: movingAverage_def val_dbl_tenth)
  show ?thesis
    using avg flat_diff
    by (simp add: movingAverageDeviation_def Let_def val_dbl_tenth sign_class_def js_nonzero_def)
qed

text \<open>
  Claim C5. For a non-empty series the summary compares the current price
  \<open>series[n - 1]\<close> with \<open>series[n - 2]\<close> when \<open>n \<ge> 2\<close>, and with itself when \<open>n = 1\<close>;
  a series of one price therefore shows a change of 0 and 0 percent.
\<close>

theorem dayChange_edge:
  assumes "xs \<noteq> []" and "summary_el pg"
    and "ref = (if 2 \<le> length xs then xs ! (length xs - 2) else last xs)"
  shows "prevPrice (Array xs) (int (length xs)) (Num (val (last xs))) = Num (val ref)
    \<and> (\<exists>s. summary (updatePriceSummary name (Num (val (last xs)))
                      (prevPrice (Array xs) (int (length xs)) (Num (val (last xs)))) pg) = Some s
        \<and> summary_current s = Num (val (last xs))
        \<and> summary_diff s = fl (val (last xs) - val ref)
        \<and> summary_pct s = (if val ref = 0 then Num 0
                            else js_mul (js_div (fl (val (last xs) - val ref)) (Num (val ref))) (Num 100))
        \<and> (length xs = 1 \<longrightarrow> summary_diff s = Num 0 \<and> summary_pct s = Num 0))"
proof -
  have one: "ref = last xs" if "length xs = 1" using that assms(3) by simp
  have zero: "js_mul (js_div (fl 0) (Num (val ref))) (Num 100) = Num 0" if "val ref \<noteq> 0"
    using that js_pct_zero[of "val ref"] by (simp add: js_pct_def fl_0)
  show ?thesis
    using prevPrice_Array[OF assms(1)] assms one zero
    by (auto simp: updatePriceSummary_def Let_def js_pct_def js_nonzero_def fl_0)
qed

theorem dayChange_edge_witness:
  "[dbl 42] \<noteq> [] \<and> summary_el empty_page
   \<and> dbl 42 = (if 2 \<le> length [dbl 42] then [dbl 42] ! (length [dbl 42] - 2) else last [dbl 42])
   \<and> prevPrice (Array [dbl 42]) 1 (Num 42) = Num 42
   \<and> (\<exists>s. summary (updatePriceSummary ''gold'' (Num 42) (prevPrice (Array [dbl 42]) 1 (Num 42)) empty_page)
            = Some s
        \<and> summary_diff s = Num 0 \<and> summary_pct s = Num 0)"
  using dayChange_edge[of "[dbl 42]" empty_page "dbl 42" "''gold''"]
  by (auto simp: empty_page_def double_simps)

section \<open>Percentages and classes\<close>

text \<open>
  Claim C6. Each of the three percentages (period row, moving-average row, summary) is
  exactly 0 when its reference (the past price, the average, the previous price) is the
  number 0, whatever the current price: the guard \<^verbatim>\<open>!== 0\<close> keeps the division away.
  The quotient itself, \<open>(a / 0) * 100\<close>, would be an infinity or \<^verbatim>\<open>NaN\<close>, never 0.
\<close>

theorem percent_zero_guard:
  "(pastPrice v n (period_days p) = Num 0 \<longrightarrow> row_percent (periodRow v n c p) = Num 0)
   \<and> (0 < n \<and> movingAverage v n l = Num 0 \<longrightarrow>
        (\<exists>r. movingAverageDeviation v n c l = Some r \<and> row_percent r = Num 0))
   \<and> (summary_el pg \<longrightarrow>
        (\<exists>s. summary (updatePriceSummary name c (Num 0) pg) = Some s \<and> summary_pct s = Num 0))
   \<and> js_mul (js_div a (Num 0)) (Num 100) \<noteq> Num 0"
  using js_pct_zero_divisor[of a]
  by (auto simp: periodRow_def movingAverageDeviation_def updatePriceSummary_def Let_def
        js_nonzero_def js_pct_def)

theorem percent_zero_guard_witness:
  "pastPrice (Array [dbl 0, dbl 5]) 2 2 = Num 0
   \<and> row_percent (periodRow (Array [dbl 0, dbl 5]) 2 (Num 5) \<lparr>period_name = ''2 Days'', period_days = 2\<rparr>)
        = Num 0
   \<and> (0::int) < 2 \<and> movingAverage (Array [dbl (- 5), dbl 5]) 2 50 = Num 0
   \<and> (\<exists>r. movingAverageDeviation (Array [dbl (- 5), dbl 5]) 2 (Num 5) 50 = Some r
          \<and> row_percent r = Num 0)
   \<and> summary_el empty_page
   \<and> (\<exists>s. summary (updatePriceSummary ''gold'' (Num 5) (Num 0) empty_page) = Some s
          \<and> summary_pct s = Num 0)
   \<and> js_mul (js_div (Num 5) (Num 0)) (Num 100) = PosInf"
proof -
  have a: "pastPrice (Array [dbl 0, dbl 5]) 2 2 = Num 0"
    by (simp add: pastPrice_def double_simps)
  have ne: "[dbl (- 5), dbl 5] \<noteq> []" by simp
  have b: "movingAverage (Array [dbl (- 5), dbl 5]) 2 50 = Num 0"
    using movingAverage_Array[OF ne, of 50] by (simp add: double_simps)
  have c: "summary_el empty_page" by (simp add: empty_page_def)
  have d: "js_mul (js_div (Num 5) (Num 0)) (Num 100) = PosInf" by (simp add: inf_signed_def)
  show ?thesis
    using a b c d
      percent_zero_guard[of "Array [dbl 0, dbl 5]" 2 "\<lparr>period_name = ''2 Days'', period_days = 2\<rparr>"
        "Num 5" 50 empty_page "''gold''" "Num 5"]
      percent_zero_guard[of "Array [dbl (- 5), dbl 5]" 2 "\<lparr>period_name = ''2 Days'', period_days = 2\<rparr>"
        "Num 5" 50 empty_page "''gold''" "Num 5"]
    by simp
qed

text \<open>
  Claim C9. For a non-empty series the first period, "Today" with one day of look-back,
  takes \<open>series[n - 1]\<close>, the current price itself, as its reference: its amount and
  its percentage are 0. The summary compares with \<open>series[n - 2]\<close> instead, so the two
  differ whenever the last two prices differ.
\<close>

theorem today_row_zero:
  assumes "xs \<noteq> []"
  shows "hd periods = \<lparr>period_name = ''Today'', period_days = 1\<rparr>
    \<and> pastPrice (Array xs) (int (length xs)) (period_days (hd periods)) = Num (val (last xs))
    \<and> row_amount (periodRow (Array xs) (int (length xs)) (Num (val (last xs))) (hd periods)) = Num 0
    \<and> row_percent (periodRow (Array xs) (int (length xs)) (Num (val (last xs))) (hd periods)) = Num 0
    \<and> (2 \<le> length xs \<and> xs ! (length xs - 1) \<noteq> xs ! (length xs - 2) \<and> summary_el pg \<longrightarrow>
         (\<exists>s. summary (updatePriceSummary name (Num (val (last xs)))
                        (prevPrice (Array xs) (int (length xs)) (Num (val (last xs)))) pg) = Some s
            \<and> summary_diff s = fl (val (xs ! (length xs - 1)) - val (xs ! (length xs - 2)))
            \<and> summary_diff s
                \<noteq> row_amount (periodRow (Array xs) (int (length xs)) (Num (val (last xs))) (hd periods))))"
proof -
  have hdp: "hd periods = \<lparr>period_name = ''Today'', period_days = 1\<rparr>"
    by (simp add: periods_def)
  have past: "pastPrice (Array xs) (int (length xs)) 1 = Num (val (last xs))"
    using assms js_index_last[OF assms] by (simp add: pastPrice_def Let_def)
  have pct: "js_pct (Num 0) (Num (val (last xs))) = Num 0" if "js_nonzero (Num (val (last xs)))"
    using that js_pct_zero[of "val (last xs)"] by (simp add: js_nonzero_def)
  have row: "row_amount (periodRow (Array xs) (int (length xs)) (Num (val (last xs))) (hd periods)) = Num 0
      \<and> row_percent (periodRow (Array xs) (int (length xs)) (Num (val (last xs))) (hd periods)) = Num 0"
    using past hdp pct by (simp add: periodRow_def Let_def fl_0)
  have lastn: "last xs = xs ! (length xs - 1)" using assms by (simp add: last_conv_nth)
  have summ: "\<exists>s. summary (updatePriceSummary name (Num (val (last xs)))
                        (prevPrice (Array xs) (int (length xs)) (Num (val (last xs)))) pg) = Some s
            \<and> summary_diff s = fl (val (xs ! (length xs - 1)) - val (xs ! (length xs - 2)))
            \<and> summary_diff s
                \<noteq> row_amount (periodRow (Array xs) (int (length xs)) (Num (val (last xs))) (hd periods))"
    if h: "2 \<le> length xs" "xs ! (length xs - 1) \<noteq> xs ! (length xs - 2)" "summary_el pg"
  proof -
    have "val (xs ! (length xs - 1)) \<noteq> val (xs ! (length xs - 2))"
      using h(2) by (simp add: val_inject)
    then have "fl (val (xs ! (length xs - 1)) - val (xs ! (length xs - 2))) \<noteq> Num 0"
      by (intro double_diff_nonzero is_double_val)
    then show ?thesis
      using h prevPrice_Array[OF assms] row lastn
      by (simp add: updatePriceSummary_def Let_def)
  qed
  show ?thesis using hdp past row summ by simp
qed

theorem today_row_zero_witness:
  "[dbl 100, dbl 102, dbl 98, dbl 105] \<noteq> []
   \<and> row_amount (periodRow (Array [dbl 100, dbl 102, dbl 98, dbl 105]) 4 (Num 105) (hd periods)) = Num 0
   \<and> row_percent (periodRow (Array [dbl 100, dbl 102, dbl 98, dbl 105]) 4 (Num 105) (hd periods)) = Num 0
   \<and> dbl 105 \<noteq> dbl 98
   \<and> (\<exists>s. summary (updatePriceSummary ''gold'' (Num 105)
                     (prevPrice (Array [dbl 100, dbl 102, dbl 98, dbl 105]) 4 (Num 105)) empty_page)
            = Some s \<and> summary_diff s = Num 7)"
proof -
  have ne: "dbl 105 \<noteq> dbl 98"
  proof
    assume "dbl 105 = dbl 98"
    then have "val (dbl 105) = val (dbl 98)" by simp
    then show False by (simp add: double_simps)
  qed
  have seven: "fl (105 - 98) = Num 7" by (simp add: double_simps)
  show ?thesis
    using ne seven today_row_zero[of "[dbl 100, dbl 102, dbl 98, dbl 105]" empty_page "''gold''"]
    by (auto simp: empty_page_def double_simps)
qed





section \<open>Names that resolve to nothing, and names that are inherited\<close>

lemma js_get_None_iff:
  "js_get ms name = None \<longleftrightarrow> ms name = None \<and> object_prototype name = None"
  by (simp add: js_get_def split: option.splits)

lemma updateDisplay_unresolved:
  assumes "metals d = Some ms" and "js_get ms name = None"
  shows "updateDisplay tz (Some d) name pg = (None, pg)"
  using assms by (simp add: updateDisplay_def)

lemma updateDisplay_series:
  assumes "metals d = Some ms" and "ms name = Some xs" and "xs \<noteq> []"
    and "chartWindow tz (start_date d) (Array xs) (int (length xs)) 30 = Inr (ls, ps)"
  shows "\<exists>dma. movingAverageDeviation (Array xs) (int (length xs)) (Num (val (last xs))) 50 = Some dma \<and>
         updateDisplay tz (Some d) name pg =
           (None,
            (updatePriceSummary name (Num (val (last xs)))
               (prevPrice (Array xs) (int (length xs)) (Num (val (last xs))))
               (pg\<lparr>chart := Some \<lparr>chart_metal = name, chart_labels = ls, chart_points = ps\<rparr>,
                   current_price := Some (Num (val (last xs)))\<rparr>))
            \<lparr>performance_body :=
               periodChanges (Array xs) (int (length xs)) (Num (val (last xs))) periods @ [dma]\<rparr>)"
proof -
  have "0 < int (length xs)" using assms(3) by simp
  then obtain dma where
    dma: "movingAverageDeviation (Array xs) (int (length xs)) (Num (val (last xs))) 50 = Some dma"
    by (simp add: movingAverageDeviation_def Let_def)
  have get: "js_get ms name = Some (Array xs)" using assms(2) by (simp add: js_get_def)
  show ?thesis
    using assms(1,4) get dma js_index_last[OF assms(3)]
    by (simp add: updateDisplay_def Let_def)
qed

text \<open>After a name that resolved to nothing, a query for a series works as on a fresh page.\<close>

lemma requery_after_unresolved:
  assumes "metals d = Some ms" and "js_get ms bad = None"
  shows "updateDisplay tz (Some d) good (snd (updateDisplay tz (Some d) bad pg)) =
           updateDisplay tz (Some d) good pg"
  using updateDisplay_unresolved[OF assms] by simp

text \<open>
  Claim C7 as stated fails: with no dataset and with an unknown name the call has one and
  the same outcome, a silent return that leaves the page as it was.
\<close>

theorem uninitialized_same_as_not_found:
  "updateDisplay utc_zone None ''platinum'' empty_page = (None, empty_page)
   \<and> sample_metals ''platinum'' = None
   \<and> updateDisplay utc_zone (Some sample_data) ''platinum'' empty_page = (None, empty_page)"
  by (simp add: updateDisplay_def sample_data_def sample_metals_def js_get_def object_prototype_def)

text \<open>
  Claim C7, amended. \<^verbatim>\<open>updateDisplay\<close> raises no signal of its own: called with no
  dataset, with a dataset that has no \<^verbatim>\<open>metals\<close>, or with a name that resolves to
  nothing, it returns without an exception and leaves the page unchanged, the same
  outcome in the three cases. An empty price sequence is not taken for a missing one:
  it passes the guards, and the outcome differs. A missing dataset is reported, on the
  console and in an alert, by the \<^verbatim>\<open>DOMContentLoaded\<close> handler, which then installs no
  listener.
\<close>

theorem lookup_outcomes:
  "updateDisplay tz None name pg = (None, pg)
   \<and> (metals d = None \<longrightarrow> updateDisplay tz (Some d) name pg = (None, pg))
   \<and> (metals d = Some ms \<and> js_get ms name = None \<longrightarrow>
        updateDisplay tz (Some d) name pg = (None, pg))
   \<and> (metals d = Some ms \<and> ms name = Some [] \<longrightarrow>
        updateDisplay tz (Some d) name pg \<noteq> (None, pg))
   \<and> domContentLoaded tz None pg =
        (None, pg\<lparr>console_errors := console_errors pg
                       @ [''METALS_DATA is not defined. Ensure data.js is loaded.''],
                    alerts := alerts pg @ [''Sample data not loaded. Please check your setup.'']\<rparr>)
   \<and> change_listener (snd (domContentLoaded tz None pg)) = change_listener pg"
proof -
  have empty: "updateDisplay tz (Some d) name pg \<noteq> (None, pg)"
    if "metals d = Some ms" "ms name = Some []"
  proof -
    have "js_get ms name = Some (Array [])" using that by (simp add: js_get_def)
    then have "fst (updateDisplay tz (Some d) name pg) = Some TypeError"
      using that by (simp add: updateDisplay_def chartWindow_def chartLoop.simps Let_def)
    then show ?thesis by auto
  qed
  show ?thesis
    using empty updateDisplay_unresolved[of d ms name tz pg]
    by (simp add: updateDisplay_def domContentLoaded_def)
qed

theorem lookup_outcomes_witness:
  "metals sample_data = Some sample_metals
   \<and> js_get sample_metals ''platinum'' = None
   \<and> sample_metals ''silver'' = Some []
   \<and> updateDisplay utc_zone None ''platinum'' empty_page = (None, empty_page)
   \<and> updateDisplay utc_zone (Some sample_data) ''platinum'' empty_page = (None, empty_page)
   \<and> updateDisplay utc_zone (Some sample_data) ''silver'' empty_page \<noteq> (None, empty_page)
   \<and> alerts (snd (domContentLoaded utc_zone None empty_page))
        = [''Sample data not loaded. Please check your setup.'']"
proof -
  have a: "metals sample_data = Some sample_metals" by (simp add: sample_data_def)
  have b: "js_get sample_metals ''platinum'' = None"
    by (simp add: js_get_def sample_metals_def object_prototype_def)
  have c: "sample_metals ''silver'' = Some []" by (simp add: sample_metals_def)
  have e: "alerts empty_page = []" by (simp add: empty_page_def)
  show ?thesis
    using a b c e
      lookup_outcomes[of utc_zone "''platinum''" empty_page sample_data sample_metals]
      lookup_outcomes[of utc_zone "''silver''" empty_page sample_data sample_metals]
    by simp
qed

text \<open>
  Claim C8 fails on the code at a name that is no key of the dataset but a property every
  object inherits: \<^verbatim>\<open>metals["constructor"]\<close> is the function \<^verbatim>\<open>Object\<close>, which passes
  the guard \<^verbatim>\<open>if (!metalSeries) return\<close>. Its \<^verbatim>\<open>length\<close> is 1 and it has no element:
  the chart is replaced by one of a single \<^verbatim>\<open>undefined\<close> point, and
  \<^verbatim>\<open>currentPrice.toFixed(2)\<close> throws a TypeError.
\<close>

theorem updateDisplay_inherited_name:
  "sample_metals ''constructor'' = None
   \<and> updateDisplay utc_zone (Some sample_data) ''constructor'' empty_page =
       (Some TypeError,
        empty_page\<lparr>chart := Some \<lparr>chart_metal = ''constructor'',
                                     chart_labels = [''2020-01-01''],
                                     chart_points = [Undefined]\<rparr>\<rparr>)"
proof -
  have own: "sample_metals ''constructor'' = None" by (simp add: sample_metals_def)
  have get: "js_get sample_metals ''constructor'' = Some (Function 1)"
    by (simp add: js_get_def own object_prototype_def)
  have label: "dateLabel utc_zone (date_only 2020 1 1) 0 = Inr ''2020-01-01''" by code_simp
  have window: "chartWindow utc_zone (date_only 2020 1 1) (Function 1) 1 30
                  = Inr ([''2020-01-01''], [Undefined])"
    using label by (simp add: chartWindow_def chartLoop.simps)
  show ?thesis
    using own get window by (simp add: updateDisplay_def sample_data_def)
qed

section \<open>Date labels\<close>

text \<open>In a zone without offset the label of index 59 from 2021-01-01 is 2021-03-01.\<close>

lemma dateLabel_utc_example:
  "dateLabel utc_zone (date_only 2021 1 1) 59 = Inr ''2021-03-01''"
  by code_simp

text \<open>
  Claim C2 fails on the code where the browser's zone has summer time. \<^verbatim>\<open>setDate\<close> keeps
  the local time of day, 01:00 for a start at midnight UTC read in Central European
  Time; from the end of March that local time is 23:00 UTC of the day before, and
  \<^verbatim>\<open>toISOString\<close> renders the UTC day. Index 100 from 2021-01-01 is labelled
  2021-04-10; one hundred calendar days after 2021-01-01 is 2021-04-11, which is also
  the label in a zone without offset. Indices 86 and 87 get the same label.
\<close>

theorem dateLabel_summer_time:
  "dateLabel cet_2021 (date_only 2021 1 1) 100 = Inr ''2021-04-10''
   \<and> iso_date (civil_from_days (days_from_civil 2021 1 1 + 100)) = ''2021-04-11''
   \<and> dateLabel utc_zone (date_only 2021 1 1) 100 = Inr ''2021-04-11''
   \<and> dateLabel cet_2021 (date_only 2021 1 1) 86 = Inr ''2021-03-28''
   \<and> dateLabel cet_2021 (date_only 2021 1 1) 87 = Inr ''2021-03-28''"
  by code_simp

text \<open>
  Claim C3 fails on the code in its date order, by the same defect as claim C2. For a
  series of 101 prices from 2021-01-01, read in Central European Time, the window has
  its 30 points, the prices of the indices 71 to 100 in ascending order; but the dates
  beside them do not ascend: the points of the indices 86 and 87 are both labelled
  2021-03-28, every later point carries the date of the day before its own, and the
  date of the last point, 2021-04-11, is not shown at all.
\<close>

theorem chartWindow_repeats_a_date:
  "chartWindow cet_2021 (date_only 2021 1 1) (Array (replicate 101 (dbl 0))) 101 30 =
     Inr ([''2021-03-13'', ''2021-03-14'', ''2021-03-15'', ''2021-03-16'', ''2021-03-17'',
           ''2021-03-18'', ''2021-03-19'', ''2021-03-20'', ''2021-03-21'', ''2021-03-22'',
           ''2021-03-23'', ''2021-03-24'', ''2021-03-25'', ''2021-03-26'', ''2021-03-27'',
           ''2021-03-28'', ''2021-03-28'', ''2021-03-29'', ''2021-03-30'', ''2021-03-31'',
           ''2021-04-01'', ''2021-04-02'', ''2021-04-03'', ''2021-04-04'', ''2021-04-05'',
           ''2021-04-06'', ''2021-04-07'', ''2021-04-08'', ''2021-04-09'', ''2021-04-10''],
          replicate 30 (Num 0))
   \<and> iso_date (civil_from_days (days_from_civil 2021 1 1 + 86)) = ''2021-03-28''
   \<and> iso_date (civil_from_days (days_from_civil 2021 1 1 + 87)) = ''2021-03-29''
   \<and> iso_date (civil_from_days (days_from_civil 2021 1 1 + 100)) = ''2021-04-11''"
  by code_simp

end
